theory Spec2Isabelle
  imports Main
begin

section \<open>Values, rows and the users table\<close>

text \<open>
  A thrown JavaScript error. The handlers only ever read its \<open>message\<close>.
\<close>

datatype js_error = Error (message: string)

text \<open>
  JSON values of the objects the store client hands back: numbers, strings and
  timestamps (milliseconds since the epoch).
\<close>

datatype jvalue = JNum int | JStr string | JDate int

type_synonym json_obj = "(string \<times> jvalue) list"

text \<open>
  One row of the \<open>users\<close> table with every column the services name. The column
  \<open>id\<close> is called \<open>id_col\<close> here, since \<open>id\<close> is the identity function of HOL.
\<close>

record user_row =
  id_col :: int
  name :: string
  email :: string
  password :: string
  role :: string
  created_at :: int
  updated_at :: int

type_synonym users_table = "user_row list"

text \<open>
  Modelled from the spec: \<open>updateUserSchema\<close> (validations/users.validation.js) is not
  among the sources. The spec gives the validated body as a sparse set of
  \<open>{name, email, password, role}\<close> and \<open>role\<close> as the enumeration \<open>{user, admin}\<close>.
  An absent key is \<open>None\<close>.
\<close>

datatype role_value = RoleUser | RoleAdmin

fun role_text :: "role_value \<Rightarrow> string" where
  "role_text RoleUser = ''user''"
| "role_text RoleAdmin = ''admin''"

record updates =
  set_name :: "string option"
  set_email :: "string option"
  set_password :: "string option"
  set_role :: "role_value option"

text \<open>
  The object given to \<open>.set(...)\<close>: the spread copy of the body, with \<open>updated_at\<close> added.
\<close>

record update_data =
  d_name :: "string option"
  d_email :: "string option"
  d_password :: "string option"
  d_role :: "string option"
  d_updated_at :: "int option"

text \<open>
  What the services use and the sources do not hold: \<open>hashPassword\<close> of auth.service.js,
  the value of \<open>new Date()\<close> at the call, \<open>formatValidationError\<close> of utils/format.js, and
  the error the store client throws when a write violates the unique constraint on
  \<open>email\<close>.
\<close>

record env =
  hashPassword :: "string \<Rightarrow> string"
  now :: int
  formatValidationError :: "string \<Rightarrow> string"
  unique_violation :: js_error

text \<open>JavaScript truthiness of a string-valued key that may be absent.\<close>

fun truthy :: "string option \<Rightarrow> bool" where
  "truthy None = False"
| "truthy (Some s) = (s \<noteq> [])"

section \<open>The store client\<close>

text \<open>
  The projection that \<open>getAllUsers\<close>, \<open>getUserById\<close> and the \<open>returning\<close> clause of
  \<open>updateUser\<close> all spell out: six columns, in this order.
\<close>

definition user_columns :: "user_row \<Rightarrow> json_obj" where
  "user_columns r =
     [(''id'', JNum (id_col r)), (''name'', JStr (name r)), (''email'', JStr (email r)),
      (''role'', JStr (role r)), (''created_at'', JDate (created_at r)),
      (''updated_at'', JDate (updated_at r))]"

text \<open>The projection of the existence checks: \<open>select({ id, email })\<close>.\<close>

definition id_email_columns :: "user_row \<Rightarrow> json_obj" where
  "id_email_columns r = [(''id'', JNum (id_col r)), (''email'', JStr (email r))]"

text \<open>\<open>.from(users).where(eq(users.id, id)).limit(1)\<close>\<close>

definition where_id_limit1 :: "users_table \<Rightarrow> int \<Rightarrow> user_row list" where
  "where_id_limit1 tbl i = take 1 (filter (\<lambda>r. id_col r = i) tbl)"

text \<open>A row after \<open>SET\<close>: a key that is absent (undefined) leaves its column alone.\<close>

definition apply_set :: "update_data \<Rightarrow> user_row \<Rightarrow> user_row" where
  "apply_set d r =
     r\<lparr> name := (case d_name d of None \<Rightarrow> name r | Some v \<Rightarrow> v),
        email := (case d_email d of None \<Rightarrow> email r | Some v \<Rightarrow> v),
        password := (case d_password d of None \<Rightarrow> password r | Some v \<Rightarrow> v),
        role := (case d_role d of None \<Rightarrow> role r | Some v \<Rightarrow> v),
        updated_at := (case d_updated_at d of None \<Rightarrow> updated_at r | Some v \<Rightarrow> v) \<rparr>"

text \<open>
  Modelled from the spec: the table declaration (models/user.model.js) is not among the
  sources; the spec says \<open>email\<close> is unique across all users, enforced by a constraint of
  the store. A write that would give a matched row the email of a row with another id is
  refused by the store, which changes nothing and throws its own error.
\<close>

definition violates_unique_email :: "users_table \<Rightarrow> int \<Rightarrow> update_data \<Rightarrow> bool" where
  "violates_unique_email tbl i d =
     (case d_email d of
        None \<Rightarrow> False
      | Some e \<Rightarrow> list_ex (\<lambda>r. id_col r = i) tbl \<and>
                  list_ex (\<lambda>r. id_col r \<noteq> i \<and> email r = e) tbl)"

text \<open>
  \<open>db.update(users).set(d).where(eq(users.id, id)).returning({...})\<close>: the rows returned
  and the table afterwards.
\<close>

definition db_update ::
  "env \<Rightarrow> users_table \<Rightarrow> int \<Rightarrow> update_data \<Rightarrow> (js_error + json_obj list) \<times> users_table" where
  "db_update cfg tbl i d =
     (if violates_unique_email tbl i d then (Inl (unique_violation cfg), tbl)
      else
        let tbl' = map (\<lambda>r. if id_col r = i then apply_set d r else r) tbl
        in (Inr (map user_columns (filter (\<lambda>r. id_col r = i) tbl')), tbl'))"

text \<open>\<open>db.delete(users).where(eq(users.id, id))\<close>\<close>

definition db_delete :: "users_table \<Rightarrow> int \<Rightarrow> users_table" where
  "db_delete tbl i = filter (\<lambda>r. id_col r \<noteq> i) tbl"

section \<open>services/users.service.js\<close>

text \<open>
  Logging is left out. A service returns its outcome (\<open>Inl\<close> the thrown error) together
  with the table it leaves behind.
\<close>

definition getAllUsers :: "users_table \<Rightarrow> js_error + json_obj list" where
  "getAllUsers tbl = Inr (map user_columns tbl)"

definition getUserById :: "users_table \<Rightarrow> int \<Rightarrow> js_error + json_obj" where
  "getUserById tbl i =
     (case map user_columns (where_id_limit1 tbl i) of
        [] \<Rightarrow> Inl (Error ''User not found'')
      | user # _ \<Rightarrow> Inr user)"

text \<open>
  \<open>updateData\<close> as \<open>updateUser\<close> prepares it: the spread copy, the password hashed when
  it is truthy, and the fresh timestamp.
\<close>

definition prepare_updateData :: "env \<Rightarrow> updates \<Rightarrow> update_data" where
  "prepare_updateData cfg u =
     \<lparr> d_name = set_name u,
       d_email = set_email u,
       d_password =
         (if truthy (set_password u) then map_option (hashPassword cfg) (set_password u)
          else set_password u),
       d_role = map_option role_text (set_role u),
       d_updated_at = Some (now cfg) \<rparr>"

text \<open>
  The result is \<open>updatedUser\<close>, the first returned row; \<open>None\<close> stands for \<open>undefined\<close>,
  what the destructuring gives on an empty result.
\<close>

definition updateUser ::
  "env \<Rightarrow> users_table \<Rightarrow> int \<Rightarrow> updates \<Rightarrow> (js_error + json_obj option) \<times> users_table" where
  "updateUser cfg tbl i u =
     (case map id_email_columns (where_id_limit1 tbl i) of
        [] \<Rightarrow> (Inl (Error ''User not found''), tbl)
      | existingUser # _ \<Rightarrow>
          (case db_update cfg tbl i (prepare_updateData cfg u) of
             (Inl e, tbl') \<Rightarrow> (Inl e, tbl')
           | (Inr returned, tbl') \<Rightarrow>
               (Inr (case returned of [] \<Rightarrow> None | updatedUser # _ \<Rightarrow> Some updatedUser), tbl')))"

definition deleteUser :: "users_table \<Rightarrow> int \<Rightarrow> (js_error + string) \<times> users_table" where
  "deleteUser tbl i =
     (case map id_email_columns (where_id_limit1 tbl i) of
        [] \<Rightarrow> (Inl (Error ''User not found''), tbl)
      | existingUser # _ \<Rightarrow> (Inr ''User deleted successfully'', db_delete tbl i))"

section \<open>controllers/users.controller.js\<close>

text \<open>\<open>req.user\<close>: the identity the session token resolved to.\<close>

record actor =
  actor_id :: int
  actor_email :: string
  actor_role :: string

text \<open>
  The result of \<open>schema.safeParse(...)\<close>. The schemas are not among the sources, so a
  handler takes the parse result as its input: the zod error, or the validated data.
\<close>

datatype 'a safeParse = Failure string | Success 'a

text \<open>The JSON bodies the handlers send, by their keys.\<close>

datatype body =
    ErrorDetails string string
  | ErrorMessage string string
  | ErrorOnly string
  | MessageUsers string "json_obj list"
  | MessageUser string "json_obj option"
  | MessageOnly string

text \<open>
  What a handler does with the request: \<open>res.status(c).json(b)\<close>, or \<open>next(e)\<close>, the
  generic error path.
\<close>

datatype response = Json nat body | Next js_error

fun status :: "response \<Rightarrow> nat option" where
  "status (Json c b) = Some c"
| "status (Next e) = None"

definition fetchAllUsers :: "actor \<Rightarrow> users_table \<Rightarrow> response" where
  "fetchAllUsers user tbl =
     (if actor_role user \<noteq> ''admin''
      then Json 403 (ErrorMessage ''Access denied'' ''Only administrators can view all users'')
      else (case getAllUsers tbl of
              Inl e \<Rightarrow> Next e
            | Inr users \<Rightarrow> Json 200 (MessageUsers ''Users retrieved successfully'' users)))"

definition fetchUserById_catch :: "js_error \<Rightarrow> response" where
  "fetchUserById_catch e =
     (if message e = ''User not found'' then Json 404 (ErrorOnly ''User not found'')
      else Next e)"

definition fetchUserById :: "env \<Rightarrow> actor \<Rightarrow> int safeParse \<Rightarrow> users_table \<Rightarrow> response" where
  "fetchUserById cfg user validationResult tbl =
     (case validationResult of
        Failure err \<Rightarrow> Json 400 (ErrorDetails ''Validation failed'' (formatValidationError cfg err))
      | Success i \<Rightarrow>
          if actor_role user \<noteq> ''admin'' \<and> actor_id user \<noteq> i
          then Json 403 (ErrorMessage ''Access denied'' ''You can only view your own profile'')
          else (case getUserById tbl i of
                  Inl e \<Rightarrow> fetchUserById_catch e
                | Inr u \<Rightarrow> Json 200 (MessageUser ''User retrieved successfully'' (Some u))))"

definition updateUserById_catch :: "js_error \<Rightarrow> response" where
  "updateUserById_catch e =
     (if message e = ''User not found'' then Json 404 (ErrorOnly ''User not found'')
      else if message e = ''User with this email already exists''
      then Json 409 (ErrorOnly ''Email already exists'')
      else Next e)"

definition updateUserById ::
  "env \<Rightarrow> actor \<Rightarrow> int safeParse \<Rightarrow> updates safeParse \<Rightarrow> users_table \<Rightarrow> response \<times> users_table" where
  "updateUserById cfg user idValidationResult bodyValidationResult tbl =
     (case idValidationResult of
        Failure err \<Rightarrow>
          (Json 400 (ErrorDetails ''Validation failed'' (formatValidationError cfg err)), tbl)
      | Success i \<Rightarrow>
          (case bodyValidationResult of
             Failure err \<Rightarrow>
               (Json 400 (ErrorDetails ''Validation failed'' (formatValidationError cfg err)), tbl)
           | Success u \<Rightarrow>
               if actor_role user \<noteq> ''admin'' \<and> actor_id user \<noteq> i
               then (Json 403 (ErrorMessage ''Access denied''
                                ''You can only update your own profile''), tbl)
               else if truthy (map_option role_text (set_role u)) \<and> actor_role user \<noteq> ''admin''
               then (Json 403 (ErrorMessage ''Access denied''
                                ''Only administrators can change user roles''), tbl)
               else (case updateUser cfg tbl i u of
                       (Inl e, tbl') \<Rightarrow> (updateUserById_catch e, tbl')
                     | (Inr updatedUser, tbl') \<Rightarrow>
                         (Json 200 (MessageUser ''User updated successfully'' updatedUser), tbl'))))"

definition deleteUserById_catch :: "js_error \<Rightarrow> response" where
  "deleteUserById_catch e =
     (if message e = ''User not found'' then Json 404 (ErrorOnly ''User not found'')
      else Next e)"

definition deleteUserById ::
  "env \<Rightarrow> actor \<Rightarrow> int safeParse \<Rightarrow> users_table \<Rightarrow> response \<times> users_table" where
  "deleteUserById cfg user validationResult tbl =
     (case validationResult of
        Failure err \<Rightarrow>
          (Json 400 (ErrorDetails ''Validation failed'' (formatValidationError cfg err)), tbl)
      | Success i \<Rightarrow>
          if actor_id user = i
          then (Json 400 (ErrorMessage ''Invalid operation''
                           ''You cannot delete your own account''), tbl)
          else (case deleteUser tbl i of
                  (Inl e, tbl') \<Rightarrow> (deleteUserById_catch e, tbl')
                | (Inr r, tbl') \<Rightarrow> (Json 200 (MessageOnly ''User deleted successfully''), tbl')))"


section \<open>Sample data\<close>

definition sample_env :: env where
  "sample_env =
     \<lparr> hashPassword = (\<lambda>p. ''$2b$10$'' @ p),
       now = 1700000500000,
       formatValidationError = (\<lambda>e. e),
       unique_violation =
         Error ''duplicate key value violates unique constraint users_email_unique'' \<rparr>"

definition alice :: user_row where
  "alice = \<lparr> id_col = 1, name = ''Alice'', email = ''alice@example.com'',
             password = ''$2b$10$alicepw'', role = ''admin'',
             created_at = 1700000000000, updated_at = 1700000000000 \<rparr>"

definition bob :: user_row where
  "bob = \<lparr> id_col = 2, name = ''Bob'', email = ''bob@example.com'',
           password = ''$2b$10$bobpw'', role = ''user'',
           created_at = 1700000100000, updated_at = 1700000100000 \<rparr>"

definition sample_table :: users_table where
  "sample_table = [alice, bob]"

definition alice_actor :: actor where
  "alice_actor = \<lparr> actor_id = 1, actor_email = ''alice@example.com'', actor_role = ''admin'' \<rparr>"

definition bob_actor :: actor where
  "bob_actor = \<lparr> actor_id = 2, actor_email = ''bob@example.com'', actor_role = ''user'' \<rparr>"

definition carol_actor :: actor where
  "carol_actor = \<lparr> actor_id = 5, actor_email = ''carol@example.com'', actor_role = ''user'' \<rparr>"

definition no_updates :: updates where
  "no_updates = \<lparr> set_name = None, set_email = None, set_password = None, set_role = None \<rparr>"

section \<open>Simplification sets\<close>

lemmas store_defs = where_id_limit1_def db_update_def db_delete_def violates_unique_email_def
  apply_set_def prepare_updateData_def user_columns_def id_email_columns_def
lemmas service_defs = getAllUsers_def getUserById_def updateUser_def deleteUser_def
lemmas sample_defs = sample_env_def alice_def bob_def sample_table_def alice_actor_def
  bob_actor_def carol_actor_def no_updates_def

section \<open>Helper lemmas\<close>

lemma where_id_limit1_find:
  "where_id_limit1 tbl i = (case find (\<lambda>r. id_col r = i) tbl of None \<Rightarrow> [] | Some r \<Rightarrow> [r])"
  by (induction tbl) (simp_all add: where_id_limit1_def)

lemma find_map_update:
  "find (\<lambda>r. id_col r = i) tbl = Some r \<Longrightarrow> (\<And>x. id_col (f x) = id_col x) \<Longrightarrow>
   find (\<lambda>r. id_col r = i) (map (\<lambda>x. if id_col x = i then f x else x) tbl) = Some (f r)"
  by (induction tbl) (auto split: if_splits)

lemma id_col_apply_set: "id_col (apply_set d x) = id_col x"
  by (simp add: apply_set_def)

lemma filter_map_update_hd:
  "find (\<lambda>r. id_col r = i) tbl = Some r \<Longrightarrow> (\<And>x. id_col (f x) = id_col x) \<Longrightarrow>
   \<exists>rest. filter (\<lambda>r. id_col r = i) (map (\<lambda>x. if id_col x = i then f x else x) tbl) = f r # rest"
  by (induction tbl) (auto split: if_splits)

lemma password_not_column: "''password'' \<notin> fst ` set (user_columns r)"
  by (simp add: user_columns_def)

lemma getUserById_columns: "getUserById tbl i = Inr u \<Longrightarrow> \<exists>r. u = user_columns r"
  by (auto simp: getUserById_def split: list.splits)

lemma updateUser_columns:
  "updateUser cfg tbl i upd = (Inr (Some u), tbl') \<Longrightarrow> \<exists>r. u = user_columns r"
  by (auto simp: updateUser_def db_update_def Let_def split: list.splits if_splits)

lemma updateUser_error_table:
  "updateUser cfg tbl i upd = (Inl e, tbl') \<Longrightarrow>
   tbl' = tbl \<and> (e = Error ''User not found'' \<or> e = unique_violation cfg)"
  by (auto simp: updateUser_def db_update_def Let_def split: list.splits if_splits)

lemma updateUser_succeeds:
  assumes "find (\<lambda>x. id_col x = i) tbl = Some r"
    and "\<not> violates_unique_email tbl i (prepare_updateData cfg u)"
  shows "updateUser cfg tbl i u =
     (Inr (Some (user_columns (apply_set (prepare_updateData cfg u) r))),
      map (\<lambda>x. if id_col x = i then apply_set (prepare_updateData cfg u) x else x) tbl)"
proof -
  obtain rest where
    "filter (\<lambda>r. id_col r = i)
       (map (\<lambda>x. if id_col x = i then apply_set (prepare_updateData cfg u) x else x) tbl) =
     apply_set (prepare_updateData cfg u) r # rest"
    using filter_map_update_hd [OF assms(1), of "apply_set (prepare_updateData cfg u)"]
    by (auto simp: id_col_apply_set)
  with assms show ?thesis
    by (simp add: updateUser_def db_update_def where_id_limit1_find Let_def)
qed

lemma apply_set_prepare:
  "apply_set (prepare_updateData cfg u) x =
     x\<lparr> name := (case set_name u of None \<Rightarrow> name x | Some v \<Rightarrow> v),
        email := (case set_email u of None \<Rightarrow> email x | Some v \<Rightarrow> v),
        password := (case set_password u of None \<Rightarrow> password x
                     | Some p \<Rightarrow> if p = [] then p else hashPassword cfg p),
        role := (case set_role u of None \<Rightarrow> role x | Some v \<Rightarrow> role_text v),
        updated_at := now cfg \<rparr>"
  by (simp add: apply_set_def prepare_updateData_def split: option.splits)

lemma getUserById_find:
  "find (\<lambda>x. id_col x = i) tbl = Some r \<Longrightarrow> getUserById tbl i = Inr (user_columns r)"
  by (simp add: getUserById_def where_id_limit1_find)

section \<open>Claims\<close>

text \<open>
  C1. The claim: delete is permitted exactly for an admin acting on another id, and a
  non-admin is answered with 403. The delete handler never looks at the actor's role:
  with the sample table, Carol (id 5, role \<open>user\<close>) deletes Bob (id 2) and gets 200, and
  Bob's row is gone.
\<close>

theorem deleteUserById_non_admin_deletes:
  "deleteUserById sample_env carol_actor (Success 2) sample_table =
     (Json 200 (MessageOnly ''User deleted successfully''), [alice])"
  by (simp add: deleteUserById_def deleteUser_def store_defs sample_defs)

text \<open>
  C2. The claim: an update to the email of another row fails as a duplicate email, 409.
  \<open>updateUser\<close> has no check for a colliding email, so the message that the update
  handler maps to 409 is never thrown: when an admin gives Bob the email of Alice, the
  store's own error goes to \<open>next\<close>. Nothing is persisted.
\<close>

theorem updateUserById_duplicate_email_generic_error:
  "updateUserById sample_env alice_actor (Success 2)
       (Success (no_updates\<lparr>set_email := Some ''alice@example.com''\<rparr>)) sample_table =
     (Next (Error ''duplicate key value violates unique constraint users_email_unique''),
      sample_table)"
  by (simp add: updateUserById_def updateUserById_catch_def updateUser_def store_defs sample_defs)

text \<open>
  C3. A validated update whose body has a \<open>role\<close> key, sent by an actor whose role is not
  \<open>admin\<close>, is answered with 403 and leaves the whole table as it was, whatever else
  the body holds.
\<close>

theorem updateUserById_role_needs_admin:
  assumes "set_role u \<noteq> None" and "actor_role user \<noteq> ''admin''"
  shows "status (fst (updateUserById cfg user (Success i) (Success u) tbl)) = Some 403 \<and>
         snd (updateUserById cfg user (Success i) (Success u) tbl) = tbl"
proof -
  from assms(1) obtain v where v: "set_role u = Some v" by blast
  have "role_text v \<noteq> []" by (cases v) simp_all
  with v assms(2) show ?thesis
    by (simp add: updateUserById_def)
qed

theorem updateUserById_role_needs_admin_witness:
  "set_role (no_updates\<lparr>set_name := Some ''Robert'', set_role := Some RoleAdmin\<rparr>) \<noteq> None \<and>
   actor_role bob_actor \<noteq> ''admin'' \<and>
   status (fst (updateUserById sample_env bob_actor (Success 2)
     (Success (no_updates\<lparr>set_name := Some ''Robert'', set_role := Some RoleAdmin\<rparr>))
     sample_table)) = Some 403 \<and>
   snd (updateUserById sample_env bob_actor (Success 2)
     (Success (no_updates\<lparr>set_name := Some ''Robert'', set_role := Some RoleAdmin\<rparr>))
     sample_table) = [alice, bob]"
proof -
  have h1: "set_role (no_updates\<lparr>set_name := Some ''Robert'', set_role := Some RoleAdmin\<rparr>) \<noteq> None"
    by simp
  have h2: "actor_role bob_actor \<noteq> ''admin''"
    by (simp add: bob_actor_def)
  show ?thesis
    using updateUserById_role_needs_admin [OF h1 h2, of sample_env 2 sample_table] h1 h2
    by (simp add: sample_table_def)
qed

text \<open>
  C4. No user object returned by \<open>getAllUsers\<close>, by \<open>getUserById\<close> or by a successful
  \<open>updateUser\<close> has a \<open>password\<close> key, and so none sent by the three handlers that
  answer with users has one.
\<close>

theorem read_paths_omit_password:
  "(\<forall>users. getAllUsers tbl = Inr users \<longrightarrow> (\<forall>u\<in>set users. ''password'' \<notin> fst ` set u)) \<and>
   (\<forall>u. getUserById tbl i = Inr u \<longrightarrow> ''password'' \<notin> fst ` set u) \<and>
   (\<forall>u tbl'. updateUser cfg tbl i upd = (Inr (Some u), tbl') \<longrightarrow> ''password'' \<notin> fst ` set u) \<and>
   (\<forall>c m users. fetchAllUsers user tbl = Json c (MessageUsers m users) \<longrightarrow>
      (\<forall>u\<in>set users. ''password'' \<notin> fst ` set u)) \<and>
   (\<forall>c m u. fetchUserById cfg user idValidationResult tbl = Json c (MessageUser m (Some u)) \<longrightarrow>
      ''password'' \<notin> fst ` set u) \<and>
   (\<forall>c m u. fst (updateUserById cfg user idValidationResult bodyValidationResult tbl) =
        Json c (MessageUser m (Some u)) \<longrightarrow> ''password'' \<notin> fst ` set u)"
proof (intro conjI allI impI ballI)
  fix users u assume "getAllUsers tbl = Inr users" and "u \<in> set users"
  then obtain r where "u = user_columns r" by (auto simp: getAllUsers_def)
  then show "''password'' \<notin> fst ` set u" by (simp add: password_not_column)
next
  fix u assume "getUserById tbl i = Inr u"
  then obtain r where "u = user_columns r" using getUserById_columns by blast
  then show "''password'' \<notin> fst ` set u" by (simp add: password_not_column)
next
  fix u tbl' assume "updateUser cfg tbl i upd = (Inr (Some u), tbl')"
  then obtain r where "u = user_columns r" using updateUser_columns by blast
  then show "''password'' \<notin> fst ` set u" by (simp add: password_not_column)
next
  fix c m users u
  assume "fetchAllUsers user tbl = Json c (MessageUsers m users)" and "u \<in> set users"
  then obtain r where "u = user_columns r"
    by (auto simp: fetchAllUsers_def getAllUsers_def split: if_splits)
  then show "''password'' \<notin> fst ` set u" by (simp add: password_not_column)
next
  fix c m u
  assume "fetchUserById cfg user idValidationResult tbl = Json c (MessageUser m (Some u))"
  then obtain j where "getUserById tbl j = Inr u"
    by (auto simp: fetchUserById_def fetchUserById_catch_def
        split: safeParse.splits if_splits sum.splits)
  then obtain r where "u = user_columns r" using getUserById_columns by blast
  then show "''password'' \<notin> fst ` set u" by (simp add: password_not_column)
next
  fix c m u
  assume "fst (updateUserById cfg user idValidationResult bodyValidationResult tbl) =
        Json c (MessageUser m (Some u))"
  then obtain j v tbl' where "updateUser cfg tbl j v = (Inr (Some u), tbl')"
    by (auto simp: updateUserById_def updateUserById_catch_def
        split: safeParse.splits if_splits sum.splits prod.splits)
  then obtain r where "u = user_columns r" using updateUser_columns by blast
  then show "''password'' \<notin> fst ` set u" by (simp add: password_not_column)
qed

theorem read_paths_omit_password_witness:
  "getUserById sample_table 2 = Inr (user_columns bob) \<and>
   ''password'' \<notin> fst ` set (user_columns bob)"
proof -
  have h: "getUserById sample_table 2 = Inr (user_columns bob)"
    by (simp add: getUserById_def where_id_limit1_def sample_table_def alice_def bob_def)
  from read_paths_omit_password [of sample_table 2, THEN conjunct2, THEN conjunct1,
      THEN spec, THEN mp, OF h] h
  show ?thesis by simp
qed

text \<open>
  C5. Whatever the actor's role, a delete request for the actor's own id is answered with
  400 and the table is unchanged, so the actor's row stays.
\<close>

theorem deleteUserById_self_rejected:
  "deleteUserById cfg user (Success (actor_id user)) tbl =
     (Json 400 (ErrorMessage ''Invalid operation'' ''You cannot delete your own account''), tbl)"
  by (simp add: deleteUserById_def)

theorem deleteUserById_self_rejected_witness:
  "actor_role alice_actor = ''admin'' \<and>
   deleteUserById sample_env alice_actor (Success 1) sample_table =
     (Json 400 (ErrorMessage ''Invalid operation'' ''You cannot delete your own account''),
      [alice, bob])"
proof -
  have a: "actor_id alice_actor = 1" and b: "actor_role alice_actor = ''admin''"
    by (simp_all add: alice_actor_def)
  from deleteUserById_self_rejected [of sample_env alice_actor sample_table] a b
  show ?thesis by (simp add: sample_table_def)
qed

text \<open>
  C6. For a validated id, the view-one handler answers 403 exactly when the actor is
  neither the target nor an admin, and the update handler refuses with its ownership
  403 (table unchanged) in exactly the same case. The only other 403 of the update handler
  is the separate check on a \<open>role\<close> key sent by a non-admin.
\<close>

theorem view_update_self_or_admin:
  "(status (fetchUserById cfg user (Success i) tbl) = Some 403
      \<longleftrightarrow> \<not> (actor_id user = i \<or> actor_role user = ''admin'')) \<and>
   (updateUserById cfg user (Success i) (Success u) tbl =
        (Json 403 (ErrorMessage ''Access denied'' ''You can only update your own profile''), tbl)
      \<longleftrightarrow> \<not> (actor_id user = i \<or> actor_role user = ''admin'')) \<and>
   (status (fst (updateUserById cfg user (Success i) (Success u) tbl)) = Some 403
      \<longleftrightarrow> \<not> (actor_id user = i \<or> actor_role user = ''admin'') \<or>
          (set_role u \<noteq> None \<and> actor_role user \<noteq> ''admin''))"
proof (intro conjI)
  show "status (fetchUserById cfg user (Success i) tbl) = Some 403
      \<longleftrightarrow> \<not> (actor_id user = i \<or> actor_role user = ''admin'')"
    by (auto simp: fetchUserById_def fetchUserById_catch_def split: sum.splits)
next
  have ok: "fst (case updateUser cfg tbl i u of
                   (Inl e, tbl') \<Rightarrow> (updateUserById_catch e, tbl')
                 | (Inr updatedUser, tbl') \<Rightarrow>
                     (Json 200 (MessageUser ''User updated successfully'' updatedUser), tbl'))
            \<noteq> Json 403 (ErrorMessage ''Access denied'' ''You can only update your own profile'')"
    by (auto simp: updateUserById_catch_def split: prod.splits sum.splits)
  show "updateUserById cfg user (Success i) (Success u) tbl =
        (Json 403 (ErrorMessage ''Access denied'' ''You can only update your own profile''), tbl)
      \<longleftrightarrow> \<not> (actor_id user = i \<or> actor_role user = ''admin'')"
    using ok by (auto simp: updateUserById_def)
next
  have t: "truthy (map_option role_text (set_role u)) \<longleftrightarrow> set_role u \<noteq> None"
  proof (cases "set_role u")
    case None then show ?thesis by simp
  next
    case (Some v) then show ?thesis by (cases v) simp_all
  qed
  have ok: "status (fst (case updateUser cfg tbl i u of
                       (Inl e, tbl') \<Rightarrow> (updateUserById_catch e, tbl')
                     | (Inr updatedUser, tbl') \<Rightarrow>
                         (Json 200 (MessageUser ''User updated successfully'' updatedUser), tbl')))
            \<noteq> Some 403"
    by (auto simp: updateUserById_catch_def split: prod.splits sum.splits)
  show "status (fst (updateUserById cfg user (Success i) (Success u) tbl)) = Some 403
      \<longleftrightarrow> \<not> (actor_id user = i \<or> actor_role user = ''admin'') \<or>
          (set_role u \<noteq> None \<and> actor_role user \<noteq> ''admin'')"
    using ok by (auto simp: updateUserById_def t)
qed

theorem view_update_self_or_admin_witness:
  "status (fetchUserById sample_env carol_actor (Success 2) sample_table) = Some 403 \<and>
   status (fetchUserById sample_env bob_actor (Success 2) sample_table) = Some 200 \<and>
   updateUserById sample_env carol_actor (Success 2)
       (Success (no_updates\<lparr>set_name := Some ''X''\<rparr>)) sample_table =
     (Json 403 (ErrorMessage ''Access denied'' ''You can only update your own profile''),
      sample_table) \<and>
   status (fst (updateUserById sample_env bob_actor (Success 2)
       (Success (no_updates\<lparr>set_name := Some ''X''\<rparr>)) sample_table)) \<noteq> Some 403"
proof -
  have c: "\<not> (actor_id carol_actor = 2 \<or> actor_role carol_actor = ''admin'')"
    by (simp add: carol_actor_def)
  have b: "actor_id bob_actor = 2 \<or> actor_role bob_actor = ''admin''"
    by (simp add: bob_actor_def)
  have n: "set_role (no_updates\<lparr>set_name := Some ''X''\<rparr>) = None"
    by (simp add: no_updates_def)
  have f: "status (fetchUserById sample_env bob_actor (Success 2) sample_table) = Some 200"
    by (simp add: fetchUserById_def getUserById_def store_defs sample_defs)
  note w1 = view_update_self_or_admin [of sample_env carol_actor 2 sample_table
      "no_updates\<lparr>set_name := Some ''X''\<rparr>"]
  note w2 = view_update_self_or_admin [of sample_env bob_actor 2 sample_table
      "no_updates\<lparr>set_name := Some ''X''\<rparr>"]
  from w1 c have 1: "status (fetchUserById sample_env carol_actor (Success 2) sample_table) = Some 403"
    by blast
  from w1 c have 2: "updateUserById sample_env carol_actor (Success 2)
       (Success (no_updates\<lparr>set_name := Some ''X''\<rparr>)) sample_table =
     (Json 403 (ErrorMessage ''Access denied'' ''You can only update your own profile''),
      sample_table)"
    by blast
  from w2 b n have 3: "status (fst (updateUserById sample_env bob_actor (Success 2)
       (Success (no_updates\<lparr>set_name := Some ''X''\<rparr>)) sample_table)) \<noteq> Some 403"
    by blast
  from 1 f 2 3 show ?thesis by blast
qed

text \<open>
  C7. Let \<open>r\<close> be the row with id \<open>i\<close>. An update whose email collides with no other row
  succeeds; and after any successful update the table differs only in the rows with id
  \<open>i\<close>, where each key present in the set has its new value (the password hashed when
  it is a non-empty string), \<open>updated_at\<close> is the time of the call, and every other
  column, \<open>id\<close> and \<open>created_at\<close> among them, is as before. The returned user and the
  user of a following \<open>getUserById\<close> are both the object written out below: the old
  \<open>id\<close> and \<open>created_at\<close>, the new \<open>name\<close>, \<open>email\<close> and \<open>role\<close> where the set has
  them and the old ones where it has not, and the time of the call as \<open>updated_at\<close>.
\<close>

theorem updateUser_sparse_frame:
  assumes "find (\<lambda>x. id_col x = i) tbl = Some r"
  shows
    "((\<forall>e. set_email u = Some e \<longrightarrow> \<not> list_ex (\<lambda>x. id_col x \<noteq> i \<and> email x = e) tbl)
        \<longrightarrow> (\<exists>res tbl'. updateUser cfg tbl i u = (Inr res, tbl'))) \<and>
     (\<forall>res tbl'. updateUser cfg tbl i u = (Inr res, tbl') \<longrightarrow>
        (let new = (\<lambda>x. x\<lparr> name := (case set_name u of None \<Rightarrow> name x | Some v \<Rightarrow> v),
                 email := (case set_email u of None \<Rightarrow> email x | Some v \<Rightarrow> v),
                 password := (case set_password u of None \<Rightarrow> password x
                              | Some p \<Rightarrow> if p = [] then p else hashPassword cfg p),
                 role := (case set_role u of None \<Rightarrow> role x | Some v \<Rightarrow> role_text v),
                 updated_at := now cfg \<rparr>);
             shown = [(''id'', JNum (id_col r)),
                      (''name'', JStr (case set_name u of None \<Rightarrow> name r | Some v \<Rightarrow> v)),
                      (''email'', JStr (case set_email u of None \<Rightarrow> email r | Some v \<Rightarrow> v)),
                      (''role'', JStr (case set_role u of None \<Rightarrow> role r | Some v \<Rightarrow> role_text v)),
                      (''created_at'', JDate (created_at r)),
                      (''updated_at'', JDate (now cfg))]
         in tbl' = map (\<lambda>x. if id_col x = i then new x else x) tbl \<and>
            res = Some shown \<and>
            getUserById tbl' i = Inr shown \<and>
            id_col (new r) = id_col r \<and> created_at (new r) = created_at r))"
proof (intro conjI allI impI)
  assume "\<forall>e. set_email u = Some e \<longrightarrow> \<not> list_ex (\<lambda>x. id_col x \<noteq> i \<and> email x = e) tbl"
  then have "\<not> violates_unique_email tbl i (prepare_updateData cfg u)"
    by (auto simp: violates_unique_email_def prepare_updateData_def split: option.splits)
  with updateUser_succeeds [OF assms] show "\<exists>res tbl'. updateUser cfg tbl i u = (Inr res, tbl')"
    by blast
next
  fix res tbl' assume ok: "updateUser cfg tbl i u = (Inr res, tbl')"
  have nv: "\<not> violates_unique_email tbl i (prepare_updateData cfg u)"
  proof
    assume "violates_unique_email tbl i (prepare_updateData cfg u)"
    with assms have "\<exists>e. updateUser cfg tbl i u = (Inl e, tbl)"
      by (simp add: updateUser_def db_update_def where_id_limit1_find)
    with ok show False by auto
  qed
  let ?f = "apply_set (prepare_updateData cfg u)"
  let ?shown = "[(''id'', JNum (id_col r)),
                 (''name'', JStr (case set_name u of None \<Rightarrow> name r | Some v \<Rightarrow> v)),
                 (''email'', JStr (case set_email u of None \<Rightarrow> email r | Some v \<Rightarrow> v)),
                 (''role'', JStr (case set_role u of None \<Rightarrow> role r | Some v \<Rightarrow> role_text v)),
                 (''created_at'', JDate (created_at r)),
                 (''updated_at'', JDate (now cfg))]"
  have shown: "user_columns (?f r) = ?shown"
    by (simp add: apply_set_prepare user_columns_def)
  from updateUser_succeeds [OF assms nv] ok
  have tbl': "tbl' = map (\<lambda>x. if id_col x = i then ?f x else x) tbl"
    and res: "res = Some ?shown" by (simp_all add: shown)
  have "find (\<lambda>x. id_col x = i) tbl' = Some (?f r)"
    unfolding tbl' by (rule find_map_update [OF assms]) (simp add: id_col_apply_set)
  then have "getUserById tbl' i = Inr (user_columns (?f r))"
    by (rule getUserById_find)
  then have get: "getUserById tbl' i = Inr ?shown"
    by (simp only: shown)
  have f: "?f = (\<lambda>x. x\<lparr> name := (case set_name u of None \<Rightarrow> name x | Some v \<Rightarrow> v),
                 email := (case set_email u of None \<Rightarrow> email x | Some v \<Rightarrow> v),
                 password := (case set_password u of None \<Rightarrow> password x
                              | Some p \<Rightarrow> if p = [] then p else hashPassword cfg p),
                 role := (case set_role u of None \<Rightarrow> role x | Some v \<Rightarrow> role_text v),
                 updated_at := now cfg \<rparr>)"
    by (rule ext) (rule apply_set_prepare)
  have frame: "id_col (?f r) = id_col r \<and> created_at (?f r) = created_at r"
    by (simp add: apply_set_def)
  show "let new = (\<lambda>x. x\<lparr> name := (case set_name u of None \<Rightarrow> name x | Some v \<Rightarrow> v),
                 email := (case set_email u of None \<Rightarrow> email x | Some v \<Rightarrow> v),
                 password := (case set_password u of None \<Rightarrow> password x
                              | Some p \<Rightarrow> if p = [] then p else hashPassword cfg p),
                 role := (case set_role u of None \<Rightarrow> role x | Some v \<Rightarrow> role_text v),
                 updated_at := now cfg \<rparr>);
             shown = [(''id'', JNum (id_col r)),
                      (''name'', JStr (case set_name u of None \<Rightarrow> name r | Some v \<Rightarrow> v)),
                      (''email'', JStr (case set_email u of None \<Rightarrow> email r | Some v \<Rightarrow> v)),
                      (''role'', JStr (case set_role u of None \<Rightarrow> role r | Some v \<Rightarrow> role_text v)),
                      (''created_at'', JDate (created_at r)),
                      (''updated_at'', JDate (now cfg))]
         in tbl' = map (\<lambda>x. if id_col x = i then new x else x) tbl \<and>
            res = Some shown \<and>
            getUserById tbl' i = Inr shown \<and>
            id_col (new r) = id_col r \<and> created_at (new r) = created_at r"
    unfolding Let_def f [symmetric] using tbl' res get frame by blast
qed

theorem updateUser_sparse_frame_witness:
  "find (\<lambda>x. id_col x = 2) sample_table = Some bob \<and>
   updateUser sample_env sample_table 2 (no_updates\<lparr>set_name := Some ''X''\<rparr>) =
     (Inr (Some [(''id'', JNum 2), (''name'', JStr ''X''), (''email'', JStr ''bob@example.com''),
                 (''role'', JStr ''user''), (''created_at'', JDate 1700000100000),
                 (''updated_at'', JDate 1700000500000)]),
      [alice, bob\<lparr>name := ''X'', updated_at := 1700000500000\<rparr>]) \<and>
   getUserById [alice, bob\<lparr>name := ''X'', updated_at := 1700000500000\<rparr>] 2 =
     Inr [(''id'', JNum 2), (''name'', JStr ''X''), (''email'', JStr ''bob@example.com''),
          (''role'', JStr ''user''), (''created_at'', JDate 1700000100000),
          (''updated_at'', JDate 1700000500000)]"
proof -
  have h1: "find (\<lambda>x. id_col x = 2) sample_table = Some bob"
    by (simp add: sample_table_def alice_def bob_def)
  have h2: "updateUser sample_env sample_table 2 (no_updates\<lparr>set_name := Some ''X''\<rparr>) =
     (Inr (Some [(''id'', JNum 2), (''name'', JStr ''X''), (''email'', JStr ''bob@example.com''),
                 (''role'', JStr ''user''), (''created_at'', JDate 1700000100000),
                 (''updated_at'', JDate 1700000500000)]),
      [alice, bob\<lparr>name := ''X'', updated_at := 1700000500000\<rparr>])"
    by (simp add: updateUser_def store_defs sample_defs)
  from updateUser_sparse_frame [OF h1, of "no_updates\<lparr>set_name := Some ''X''\<rparr>" sample_env,
      THEN conjunct2, THEN spec, THEN spec, THEN mp, OF h2]
  have "getUserById [alice, bob\<lparr>name := ''X'', updated_at := 1700000500000\<rparr>] 2 =
     Inr [(''id'', JNum 2), (''name'', JStr ''X''), (''email'', JStr ''bob@example.com''),
          (''role'', JStr ''user''), (''created_at'', JDate 1700000100000),
          (''updated_at'', JDate 1700000500000)]"
    by (simp add: Let_def no_updates_def sample_env_def sample_table_def alice_def bob_def)
  with h1 h2 show ?thesis by simp
qed

text \<open>
  C8. When no row has id \<open>i\<close>, \<open>updateUser\<close> and \<open>deleteUser\<close> both throw
  \<open>User not found\<close> and leave the table as it was; the handlers answer 404 once the
  request has passed their own checks, and never change the table.
\<close>

theorem missing_id_not_found:
  assumes "find (\<lambda>x. id_col x = i) tbl = None"
  shows
    "updateUser cfg tbl i u = (Inl (Error ''User not found''), tbl) \<and>
     deleteUser tbl i = (Inl (Error ''User not found''), tbl) \<and>
     (actor_role user = ''admin'' \<or> (actor_id user = i \<and> set_role u = None) \<longrightarrow>
        updateUserById cfg user (Success i) (Success u) tbl =
          (Json 404 (ErrorOnly ''User not found''), tbl)) \<and>
     (actor_id user \<noteq> i \<longrightarrow>
        deleteUserById cfg user (Success i) tbl = (Json 404 (ErrorOnly ''User not found''), tbl)) \<and>
     snd (updateUserById cfg user (Success i) bodyValidationResult tbl) = tbl \<and>
     snd (deleteUserById cfg user (Success i) tbl) = tbl"
proof -
  from assms have w: "where_id_limit1 tbl i = []" by (simp add: where_id_limit1_find)
  have up: "updateUser cfg tbl i v = (Inl (Error ''User not found''), tbl)" for v
    by (simp add: updateUser_def w)
  have del: "deleteUser tbl i = (Inl (Error ''User not found''), tbl)"
    by (simp add: deleteUser_def w)
  have 3: "actor_role user = ''admin'' \<or> (actor_id user = i \<and> set_role u = None) \<longrightarrow>
        updateUserById cfg user (Success i) (Success u) tbl =
          (Json 404 (ErrorOnly ''User not found''), tbl)"
    by (auto simp: updateUserById_def up updateUserById_catch_def)
  have 4: "actor_id user \<noteq> i \<longrightarrow>
        deleteUserById cfg user (Success i) tbl = (Json 404 (ErrorOnly ''User not found''), tbl)"
    by (simp add: deleteUserById_def del deleteUserById_catch_def)
  have 5: "snd (updateUserById cfg user (Success i) bodyValidationResult tbl) = tbl"
    by (cases bodyValidationResult) (simp_all add: updateUserById_def up)
  have 6: "snd (deleteUserById cfg user (Success i) tbl) = tbl"
    by (simp add: deleteUserById_def del)
  from up del 3 4 5 6 show ?thesis by blast
qed

theorem missing_id_not_found_witness:
  "find (\<lambda>x. id_col x = 7) sample_table = None \<and>
   updateUser sample_env sample_table 7 (no_updates\<lparr>set_name := Some ''X''\<rparr>) =
     (Inl (Error ''User not found''), [alice, bob]) \<and>
   deleteUser sample_table 7 = (Inl (Error ''User not found''), [alice, bob]) \<and>
   updateUserById sample_env alice_actor (Success 7)
       (Success (no_updates\<lparr>set_name := Some ''X''\<rparr>)) sample_table =
     (Json 404 (ErrorOnly ''User not found''), [alice, bob]) \<and>
   deleteUserById sample_env alice_actor (Success 7) sample_table =
     (Json 404 (ErrorOnly ''User not found''), [alice, bob])"
proof -
  have h: "find (\<lambda>x. id_col x = 7) sample_table = None"
    by (simp add: sample_table_def alice_def bob_def)
  have a: "actor_role alice_actor = ''admin''" and b: "actor_id alice_actor \<noteq> 7"
    by (simp_all add: alice_actor_def)
  from missing_id_not_found [OF h, of sample_env "no_updates\<lparr>set_name := Some ''X''\<rparr>"
      alice_actor] a b h
  show ?thesis by (simp add: sample_table_def)
qed

text \<open>
  C9. For an existing id, \<open>updateUser\<close> with no key at all succeeds: the row keeps every
  column but \<open>updated_at\<close>, which becomes the time of the call, and no other row
  changes.
\<close>

theorem updateUser_no_keys_refreshes_updated_at:
  assumes "find (\<lambda>x. id_col x = i) tbl = Some r"
  shows "updateUser cfg tbl i
           \<lparr>set_name = None, set_email = None, set_password = None, set_role = None\<rparr> =
         (Inr (Some (user_columns (r\<lparr>updated_at := now cfg\<rparr>))),
          map (\<lambda>x. if id_col x = i then x\<lparr>updated_at := now cfg\<rparr> else x) tbl)"
proof -
  let ?u = "\<lparr>set_name = None, set_email = None, set_password = None, set_role = None\<rparr>"
  have nv: "\<not> violates_unique_email tbl i (prepare_updateData cfg ?u)"
    by (simp add: violates_unique_email_def prepare_updateData_def)
  have "apply_set (prepare_updateData cfg ?u) x = x\<lparr>updated_at := now cfg\<rparr>" for x
    by (simp add: apply_set_prepare)
  with updateUser_succeeds [OF assms nv] show ?thesis by simp
qed

theorem updateUser_no_keys_refreshes_updated_at_witness:
  "find (\<lambda>x. id_col x = 2) sample_table = Some bob \<and>
   updateUser sample_env sample_table 2
       \<lparr>set_name = None, set_email = None, set_password = None, set_role = None\<rparr> =
     (Inr (Some (user_columns (bob\<lparr>updated_at := 1700000500000\<rparr>))),
      [alice, bob\<lparr>updated_at := 1700000500000\<rparr>]) \<and>
   updated_at bob \<noteq> updated_at (bob\<lparr>updated_at := 1700000500000\<rparr>)"
proof -
  have h: "find (\<lambda>x. id_col x = 2) sample_table = Some bob"
    by (simp add: sample_table_def alice_def bob_def)
  from updateUser_no_keys_refreshes_updated_at [OF h, of sample_env] h
  show ?thesis by (simp add: sample_defs)
qed



end
